theory Spec2Isabelle
  imports Main "HOL-Library.Word"
begin

section \<open>Errors (errors.go)\<close>

text \<open>
  The package's sentinel errors are distinct values compared by identity. The driver's
  own errors are outside the package: \<open>redis_Nil\<close> is the driver's nil-reply sentinel
  (\<open>redis.Nil\<close>), \<open>DriverError\<close> any other error the driver reports, and
  \<open>Wrapped\<close> is \<open>fmt.Errorf("msg: %w", err)\<close>, \<open>Errorf\<close> a formatted error
  that wraps nothing.
\<close>

datatype error =
    ErrInvalidMode
  | ErrMissingSingleConfig
  | ErrMissingClusterConfig
  | ErrMissingSentinelConfig
  | ErrMissingAddr
  | ErrMissingAddrs
  | ErrMissingMasterName
  | ErrClientClosed
  | ErrNilResult
  | ErrKeyNotFound
  | ErrInvalidType
  | ErrScriptNotFound
  | ErrConnectionFailed
  | ErrConnectionTimeout
  | ErrPoolExhausted
  | ErrAuthFailed
  | ErrClusterDown
  | ErrNoReachableNode
  | ErrTooManyRedirects
  | ErrSentinelNoMaster
  | ErrSentinelMasterDown
  | ErrNoSentinelAvailable
  | ErrPipelineEmpty
  | ErrPipelineClosed
  | redis_Nil
  | DriverError string
  | Wrapped string error
  | Errorf string

text \<open>The configuration errors of errors.go, lines 6 to 21.\<close>

definition configErrors :: "error list" where
  "configErrors =
     [ErrInvalidMode, ErrMissingSingleConfig, ErrMissingClusterConfig,
      ErrMissingSentinelConfig, ErrMissingAddr, ErrMissingAddrs, ErrMissingMasterName]"

section \<open>Configuration (config.go)\<close>

text \<open>
  \<open>time.Duration\<close> is a signed 64-bit count of nanoseconds; Go's \<open>int\<close> fields are
  only copied, never computed with, and are kept as \<open>int\<close>. A pointer to a
  sub-configuration is an \<open>option\<close> (\<open>nil\<close> is \<open>None\<close>), a slice is a list
  (a \<open>nil\<close> slice and an empty one both have length 0).
\<close>

type_synonym Duration = "64 word"
type_synonym Mode = string

definition Nanosecond :: Duration where "Nanosecond = 1"
definition Microsecond :: Duration where "Microsecond = 1000 * Nanosecond"
definition Millisecond :: Duration where "Millisecond = 1000 * Microsecond"
definition Second :: Duration where "Second = 1000 * Millisecond"
definition Minute :: Duration where "Minute = 60 * Second"
definition Hour :: Duration where "Hour = 60 * Minute"

definition ModeSingle :: Mode where "ModeSingle = ''single''"
definition ModeCluster :: Mode where "ModeCluster = ''cluster''"
definition ModeSentinel :: Mode where "ModeSentinel = ''sentinel''"

record SingleConfig =
  Single_Addr :: string
  Single_DB :: int

record ClusterConfig =
  Cluster_Addrs :: "string list"
  Cluster_MaxRedirects :: int
  Cluster_ReadOnly :: bool
  Cluster_RouteByLatency :: bool
  Cluster_RouteRandomly :: bool

record SentinelConfig =
  Sentinel_Addrs :: "string list"
  Sentinel_MasterName :: string
  Sentinel_DB :: int
  Sentinel_SentinelPassword :: string

record TLSConfig =
  Enabled :: bool
  InsecureSkipVerify :: bool
  CertFile :: string
  KeyFile :: string
  CAFile :: string
  ServerName :: string

record CommonConfig =
  Password :: string
  Username :: string
  PoolSize :: int
  MinIdleConns :: int
  MaxIdleConns :: int
  ConnMaxAge :: Duration
  PoolTimeout :: Duration
  IdleTimeout :: Duration
  DialTimeout :: Duration
  ReadTimeout :: Duration
  WriteTimeout :: Duration
  MaxRetries :: int
  MinRetryBackoff :: Duration
  MaxRetryBackoff :: Duration
  KeyPrefix :: string
  DefaultTTL :: Duration
  TLS :: "TLSConfig option"
  EnableMetrics :: bool
  EnableTracing :: bool

record Config =
  Mode :: Mode
  Single :: "SingleConfig option"
  Cluster :: "ClusterConfig option"
  Sentinel :: "SentinelConfig option"
  Common :: CommonConfig

text \<open>\<open>DefaultConfig\<close>: every field the literal leaves out has Go's zero value.\<close>

definition DefaultConfig :: Config where
  "DefaultConfig =
     \<lparr>Mode = ModeSingle,
      Single = Some \<lparr>Single_Addr = ''localhost:6379'', Single_DB = 0\<rparr>,
      Cluster = None,
      Sentinel = None,
      Common =
        \<lparr>Password = '''',
         Username = '''',
         PoolSize = 10,
         MinIdleConns = 2,
         MaxIdleConns = 5,
         ConnMaxAge = Hour,
         PoolTimeout = Second * 4,
         IdleTimeout = Minute * 5,
         DialTimeout = Second * 5,
         ReadTimeout = Second * 3,
         WriteTimeout = Second * 3,
         MaxRetries = 3,
         MinRetryBackoff = Millisecond * 8,
         MaxRetryBackoff = Millisecond * 512,
         KeyPrefix = '''',
         DefaultTTL = Hour * 24,
         TLS = None,
         EnableMetrics = False,
         EnableTracing = False\<rparr>\<rparr>"

text \<open>
  \<open>Validate\<close> returns \<open>None\<close> for Go's \<open>nil\<close> error. The switch is on the mode
  string; the first test repeats the default branch for the empty string, as the source
  does.
\<close>

definition Validate :: "Config \<Rightarrow> error option" where
  "Validate c =
     (if Mode c = '''' then Some ErrInvalidMode
      else if Mode c = ModeSingle then
        (case Single c of
           None \<Rightarrow> Some ErrMissingSingleConfig
         | Some s \<Rightarrow> if Single_Addr s = '''' then Some ErrMissingAddr else None)
      else if Mode c = ModeCluster then
        (case Cluster c of
           None \<Rightarrow> Some ErrMissingClusterConfig
         | Some cl \<Rightarrow> if length (Cluster_Addrs cl) = 0 then Some ErrMissingAddrs else None)
      else if Mode c = ModeSentinel then
        (case Sentinel c of
           None \<Rightarrow> Some ErrMissingSentinelConfig
         | Some s \<Rightarrow>
             if length (Sentinel_Addrs s) = 0 then Some ErrMissingAddrs
             else if Sentinel_MasterName s = '''' then Some ErrMissingMasterName
             else None)
      else Some ErrInvalidMode)"

definition GetKeyWithPrefix :: "Config \<Rightarrow> string \<Rightarrow> string" where
  "GetKeyWithPrefix c key =
     (if KeyPrefix (Common c) = '''' then key else KeyPrefix (Common c) @ key)"

text \<open>\<open>ttl > 0\<close> is a signed comparison of 64-bit values.\<close>

definition GetTTL :: "Config \<Rightarrow> Duration \<Rightarrow> Duration" where
  "GetTTL c ttl = (if 0 <s ttl then ttl else DefaultTTL (Common c))"

section \<open>The driver boundary of the clients\<close>

text \<open>
  \<open>interface{}\<close> values that reach the package from its callers. \<open>float64\<close> scores are
  only copied into the driver's structure, so they are kept as their 64 bits.
\<close>

datatype go_value = GoNil | GoString string | GoInt int | GoBool bool

type_synonym float64 = "64 word"

datatype panic = TypeAssertionPanic | NilDereferencePanic

text \<open>
  The driver's client (\<open>*redis.Client\<close>) is not part of the package. It enters the
  model as the replies of the commands the modelled methods send: each field is the
  \<open>Result()\<close> of the driver call with those arguments, \<open>None\<close> standing for a
  \<open>nil\<close> error.
\<close>

record redis_Client =
  redis_Ping :: "error option"
  redis_Close :: "error option"
  redis_Get :: "string \<Rightarrow> string \<times> error option"
  redis_Set :: "string \<Rightarrow> go_value \<Rightarrow> Duration \<Rightarrow> error option"
  redis_MSet :: "go_value list \<Rightarrow> error option"
  redis_Keys :: "string \<Rightarrow> string list \<times> error option"
  redis_Scan :: "64 word \<Rightarrow> string \<Rightarrow> 64 word \<Rightarrow> (string list \<times> 64 word) \<times> error option"

section \<open>SingleClient (single\_client.go) and SentinelClient (sentinel client)\<close>

record SingleClient =
  client :: redis_Client
  config :: Config

record SentinelClient =
  sentinel_client :: redis_Client
  sentinel_config :: Config

definition SingleClient_Get :: "SingleClient \<Rightarrow> string \<Rightarrow> string \<times> error option" where
  "SingleClient_Get c key =
     (let key' = GetKeyWithPrefix (config c) key;
          result = redis_Get (client c) key'
      in if snd result = Some redis_Nil then ('''', Some ErrKeyNotFound) else result)"

definition SentinelClient_Get :: "SentinelClient \<Rightarrow> string \<Rightarrow> string \<times> error option" where
  "SentinelClient_Get s key =
     (let key' = GetKeyWithPrefix (sentinel_config s) key;
          result = redis_Get (sentinel_client s) key'
      in if snd result = Some redis_Nil then ('''', Some ErrKeyNotFound) else result)"

definition SingleClient_Set ::
  "SingleClient \<Rightarrow> string \<Rightarrow> go_value \<Rightarrow> Duration \<Rightarrow> error option" where
  "SingleClient_Set c key v expiration =
     (let key' = GetKeyWithPrefix (config c) key;
          expiration' = GetTTL (config c) expiration
      in redis_Set (client c) key' v expiration')"




text \<open>
  \<open>MSet\<close>: the loop \<open>for i := 0; i < len(pairs); i += 2\<close> over a slice of
  \<open>len(pairs)\<close> \<open>nil\<close>s. \<open>pairs[i].(string)\<close> panics when the value is not a string;
  it stands inside the test \<open>i+1 < len(pairs)\<close>. Both indices written are in range
  there.
\<close>

function MSet_loop ::
  "Config \<Rightarrow> go_value list \<Rightarrow> nat \<Rightarrow> go_value list \<Rightarrow> panic + go_value list" where
  "MSet_loop c pairs i prefixedPairs =
     (if i < length pairs then
        (if i + 1 < length pairs then
           (case pairs ! i of
              GoString key \<Rightarrow>
                MSet_loop c pairs (i + 2)
                  (prefixedPairs[i := GoString (GetKeyWithPrefix c key), i + 1 := pairs ! (i + 1)])
            | _ \<Rightarrow> Inl TypeAssertionPanic)
         else MSet_loop c pairs (i + 2) prefixedPairs)
      else Inr prefixedPairs)"
  by pat_completeness auto
termination
  by (relation "measure (\<lambda>(c, pairs, i, prefixedPairs). length pairs - i)") auto

declare MSet_loop.simps [simp del]

definition SingleClient_MSet :: "SingleClient \<Rightarrow> go_value list \<Rightarrow> panic + error option" where
  "SingleClient_MSet c pairs =
     (case MSet_loop (config c) pairs 0 (replicate (length pairs) GoNil) of
        Inl p \<Rightarrow> Inl p
      | Inr prefixedPairs \<Rightarrow> Inr (redis_MSet (client c) prefixedPairs))"

definition SentinelClient_MSet :: "SentinelClient \<Rightarrow> go_value list \<Rightarrow> panic + error option" where
  "SentinelClient_MSet s pairs =
     (case MSet_loop (sentinel_config s) pairs 0 (replicate (length pairs) GoNil) of
        Inl p \<Rightarrow> Inl p
      | Inr prefixedPairs \<Rightarrow> Inr (redis_MSet (sentinel_client s) prefixedPairs))"

section \<open>The pipeline (pipeliner.go)\<close>

subsection \<open>The driver's pipeline\<close>

text \<open>
  The calls the wrapper makes on the driver's pipeline (\<open>p.pipe.Get(ctx, key)\<close>, ...),
  with the arguments it passes.
\<close>

record ZMember =
  Score :: float64
  Member :: go_value

record redis_Z =
  Z_Score :: float64
  Z_Member :: go_value

datatype pipe_call =
    pipe_Get string
  | pipe_Set string go_value Duration
  | pipe_SetNX string go_value Duration
  | pipe_Incr string
  | pipe_Decr string
  | pipe_HGet string string
  | pipe_HSet string string go_value
  | pipe_HDel string "string list"
  | pipe_LPush string "go_value list"
  | pipe_RPush string "go_value list"
  | pipe_LPop string
  | pipe_RPop string
  | pipe_SAdd string "go_value list"
  | pipe_SRem string "go_value list"
  | pipe_SMembers string
  | pipe_ZAdd string "redis_Z list"
  | pipe_ZRem string "go_value list"
  | pipe_ZRange string "64 word" "64 word"
  | pipe_Del "string list"
  | pipe_Exists "string list"
  | pipe_Expire string Duration

text \<open>
  The driver's command objects, one constructor per driver type, holding what
  \<open>Val()\<close> and \<open>Err()\<close> return.
\<close>

datatype redis_Cmder =
    redis_StringCmd string "error option"
  | redis_StatusCmd string "error option"
  | redis_IntCmd "64 word" "error option"
  | redis_BoolCmd bool "error option"
  | redis_StringSliceCmd "string list" "error option"

text \<open>
  The wrapper's result handles (client.go): \<open>StringCmd{val, err}\<close> and its four
  siblings, with their \<open>Err()\<close> method.
\<close>

datatype handle =
    StringCmd string "error option"
  | StatusCmd string "error option"
  | IntCmd "64 word" "error option"
  | BoolCmd bool "error option"
  | StringSliceCmd "string list" "error option"

fun Err :: "handle \<Rightarrow> error option" where
  "Err (StringCmd v e) = e"
| "Err (StatusCmd v e) = e"
| "Err (IntCmd v e) = e"
| "Err (BoolCmd v e) = e"
| "Err (StringSliceCmd v e) = e"

text \<open>
  The driver is a parameter of the model. \<open>newCmd\<close> is the command object a pipeline
  method returns when the call is queued, before any round trip; \<open>roundTrip\<close> is what
  the driver's \<open>Exec\<close> makes of the queued calls: the resolved object of each one, in
  queue order, and the error \<open>Exec\<close> itself returns.
\<close>

record driver =
  newCmd :: "pipe_call \<Rightarrow> redis_Cmder"
  roundTrip :: "pipe_call list \<Rightarrow> redis_Cmder list \<times> error option"

text \<open>
  Command objects and handles are heap objects reached through pointers: the driver
  keeps the pointers of the queued command objects and \<open>Exec\<close> writes through them,
  the caller keeps the pointers of the handles.
\<close>

datatype object = Driver_Cmd redis_Cmder | Handle handle

record pipeline =
  heap :: "nat \<Rightarrow> object option"
  next_addr :: nat
  queued :: "(nat \<times> pipe_call) list"

definition Pipeline :: pipeline where
  "Pipeline = \<lparr>heap = (\<lambda>a. None), next_addr = 0, queued = []\<rparr>"

definition alloc :: "object \<Rightarrow> pipeline \<Rightarrow> nat \<times> pipeline" where
  "alloc ob p =
     (next_addr p, p\<lparr>heap := (heap p)(next_addr p \<mapsto> ob), next_addr := next_addr p + 1\<rparr>)"

text \<open>A driver pipeline method: a new command object, queued with its call.\<close>

definition pipe_enqueue :: "driver \<Rightarrow> pipe_call \<Rightarrow> pipeline \<Rightarrow> nat \<times> pipeline" where
  "pipe_enqueue drv call p =
     (let (a, p') = alloc (Driver_Cmd (newCmd drv call)) p
      in (a, p'\<lparr>queued := queued p' @ [(a, call)]\<rparr>))"

fun resolve :: "(nat \<Rightarrow> object option) \<Rightarrow> (nat \<times> redis_Cmder) list \<Rightarrow> (nat \<Rightarrow> object option)" where
  "resolve h [] = h"
| "resolve h ((a, cmd) # rest) = resolve (h(a \<mapsto> Driver_Cmd cmd)) rest"

text \<open>
  The driver's \<open>Exec\<close>: the queued command objects are resolved in place, the queue
  is emptied, and the pointers of the command objects are returned with the error.
\<close>

definition pipe_Exec :: "driver \<Rightarrow> pipeline \<Rightarrow> (nat list \<times> error option) \<times> pipeline" where
  "pipe_Exec drv p =
     (let (resolved, err) = roundTrip drv (map snd (queued p));
          cmds = map fst (queued p)
      in ((cmds, err), p\<lparr>heap := resolve (heap p) (zip cmds resolved), queued := []\<rparr>))"

definition pipe_Discard :: "pipeline \<Rightarrow> pipeline" where
  "pipe_Discard p = p\<lparr>queued := []\<rparr>"

subsection \<open>SinglePipeliner\<close>

text \<open>
  Every enqueue method of the wrapper ends in
  \<open>return &XCmd{val: cmd.Val(), err: cmd.Err()}\<close>, where \<open>cmd\<close> is the pointer the
  driver's method returned and \<open>XCmd\<close> is the wrapper type of the same kind as the
  driver's. \<open>wrapCmd\<close> is that copy; reading through a pointer that holds no command
  object is a nil dereference.
\<close>

fun wrapCmd :: "redis_Cmder \<Rightarrow> handle" where
  "wrapCmd (redis_StringCmd v e) = StringCmd v e"
| "wrapCmd (redis_StatusCmd v e) = StatusCmd v e"
| "wrapCmd (redis_IntCmd v e) = IntCmd v e"
| "wrapCmd (redis_BoolCmd v e) = BoolCmd v e"
| "wrapCmd (redis_StringSliceCmd v e) = StringSliceCmd v e"

definition enqueue :: "driver \<Rightarrow> pipe_call \<Rightarrow> pipeline \<Rightarrow> (nat \<times> pipeline) option" where
  "enqueue drv call p =
     (let (cmd, p') = pipe_enqueue drv call p
      in case heap p' cmd of
           Some (Driver_Cmd c) \<Rightarrow> Some (alloc (Handle (wrapCmd c)) p')
         | _ \<Rightarrow> None)"

text \<open>
  The enqueue methods of \<open>SinglePipeliner\<close>: one constructor per method with its
  arguments, and the driver call each one makes after rewriting its keys (and, for
  \<open>Set\<close> and \<open>SetNX\<close>, its expiration).
\<close>

datatype enqueue_method =
    enq_Get string
  | enq_Set string go_value Duration
  | enq_SetNX string go_value Duration
  | enq_Incr string
  | enq_Decr string
  | enq_HGet string string
  | enq_HSet string string go_value
  | enq_HDel string "string list"
  | enq_LPush string "go_value list"
  | enq_RPush string "go_value list"
  | enq_LPop string
  | enq_RPop string
  | enq_SAdd string "go_value list"
  | enq_SRem string "go_value list"
  | enq_SMembers string
  | enq_ZAdd string "ZMember list"
  | enq_ZRem string "go_value list"
  | enq_ZRange string "64 word" "64 word"
  | enq_Del "string list"
  | enq_Exists "string list"
  | enq_Expire string Duration

fun driver_call :: "Config \<Rightarrow> enqueue_method \<Rightarrow> pipe_call" where
  "driver_call c (enq_Get key) = pipe_Get (GetKeyWithPrefix c key)"
| "driver_call c (enq_Set key v expiration) =
     pipe_Set (GetKeyWithPrefix c key) v (GetTTL c expiration)"
| "driver_call c (enq_SetNX key v expiration) =
     pipe_SetNX (GetKeyWithPrefix c key) v (GetTTL c expiration)"
| "driver_call c (enq_Incr key) = pipe_Incr (GetKeyWithPrefix c key)"
| "driver_call c (enq_Decr key) = pipe_Decr (GetKeyWithPrefix c key)"
| "driver_call c (enq_HGet key field) = pipe_HGet (GetKeyWithPrefix c key) field"
| "driver_call c (enq_HSet key field v) = pipe_HSet (GetKeyWithPrefix c key) field v"
| "driver_call c (enq_HDel key flds) = pipe_HDel (GetKeyWithPrefix c key) flds"
| "driver_call c (enq_LPush key vs) = pipe_LPush (GetKeyWithPrefix c key) vs"
| "driver_call c (enq_RPush key vs) = pipe_RPush (GetKeyWithPrefix c key) vs"
| "driver_call c (enq_LPop key) = pipe_LPop (GetKeyWithPrefix c key)"
| "driver_call c (enq_RPop key) = pipe_RPop (GetKeyWithPrefix c key)"
| "driver_call c (enq_SAdd key members) = pipe_SAdd (GetKeyWithPrefix c key) members"
| "driver_call c (enq_SRem key members) = pipe_SRem (GetKeyWithPrefix c key) members"
| "driver_call c (enq_SMembers key) = pipe_SMembers (GetKeyWithPrefix c key)"
| "driver_call c (enq_ZAdd key members) =
     pipe_ZAdd (GetKeyWithPrefix c key)
       (map (\<lambda>member. \<lparr>Z_Score = Score member, Z_Member = Member member\<rparr>) members)"
| "driver_call c (enq_ZRem key members) = pipe_ZRem (GetKeyWithPrefix c key) members"
| "driver_call c (enq_ZRange key start stop) = pipe_ZRange (GetKeyWithPrefix c key) start stop"
| "driver_call c (enq_Del keys) = pipe_Del (map (GetKeyWithPrefix c) keys)"
| "driver_call c (enq_Exists keys) = pipe_Exists (map (GetKeyWithPrefix c) keys)"
| "driver_call c (enq_Expire key expiration) = pipe_Expire (GetKeyWithPrefix c key) expiration"

definition SinglePipeliner_enqueue ::
  "Config \<Rightarrow> driver \<Rightarrow> enqueue_method \<Rightarrow> pipeline \<Rightarrow> (nat \<times> pipeline) option" where
  "SinglePipeliner_enqueue c drv m p = enqueue drv (driver_call c m) p"

text \<open>
  \<open>Exec\<close>: on an error of the driver's \<open>Exec\<close> the results are \<open>nil\<close>; otherwise
  \<open>results[i] = cmd\<close> copies the pointers of the driver's command objects.
\<close>

definition SinglePipeliner_Exec ::
  "driver \<Rightarrow> pipeline \<Rightarrow> (nat list \<times> error option) \<times> pipeline" where
  "SinglePipeliner_Exec drv p =
     (case pipe_Exec drv p of
        ((cmds, Some err), p') \<Rightarrow> (([], Some err), p')
      | ((cmds, None), p') \<Rightarrow> ((map (\<lambda>cmd. cmd) cmds, None), p'))"

definition SinglePipeliner_Discard :: "pipeline \<Rightarrow> error option \<times> pipeline" where
  "SinglePipeliner_Discard p = (None, pipe_Discard p)"

definition SinglePipeliner_Close :: "pipeline \<Rightarrow> error option \<times> pipeline" where
  "SinglePipeliner_Close p = (None, p)"

section \<open>The factory (factory.go)\<close>

text \<open>
  The option structures the factory fills in for the driver; the fields it does not set
  keep Go's zero value and are left out. A loaded key pair is kept as an opaque token.
\<close>

type_synonym Certificate = string

record tls_Config =
  tls_InsecureSkipVerify :: bool
  tls_ServerName :: string
  tls_Certificates :: "Certificate list"

record redis_Options =
  opt_Addr :: string
  opt_DB :: int
  opt_Username :: string
  opt_Password :: string
  opt_PoolSize :: int
  opt_MinIdleConns :: int
  opt_MaxIdleConns :: int
  opt_PoolTimeout :: Duration
  opt_DialTimeout :: Duration
  opt_ReadTimeout :: Duration
  opt_WriteTimeout :: Duration
  opt_MaxRetries :: int
  opt_MinRetryBackoff :: Duration
  opt_MaxRetryBackoff :: Duration
  opt_TLSConfig :: "tls_Config option"

record redis_ClusterOptions =
  copt_Addrs :: "string list"
  copt_Username :: string
  copt_Password :: string
  copt_MaxRedirects :: int
  copt_ReadOnly :: bool
  copt_RouteByLatency :: bool
  copt_RouteRandomly :: bool
  copt_PoolSize :: int
  copt_MinIdleConns :: int
  copt_MaxIdleConns :: int
  copt_PoolTimeout :: Duration
  copt_DialTimeout :: Duration
  copt_ReadTimeout :: Duration
  copt_WriteTimeout :: Duration
  copt_MaxRetries :: int
  copt_MinRetryBackoff :: Duration
  copt_MaxRetryBackoff :: Duration
  copt_TLSConfig :: "tls_Config option"

record redis_FailoverOptions =
  fopt_MasterName :: string
  fopt_SentinelAddrs :: "string list"
  fopt_SentinelPassword :: string
  fopt_DB :: int
  fopt_Username :: string
  fopt_Password :: string
  fopt_PoolSize :: int
  fopt_MinIdleConns :: int
  fopt_MaxIdleConns :: int
  fopt_PoolTimeout :: Duration
  fopt_DialTimeout :: Duration
  fopt_ReadTimeout :: Duration
  fopt_WriteTimeout :: Duration
  fopt_MaxRetries :: int
  fopt_MinRetryBackoff :: Duration
  fopt_MaxRetryBackoff :: Duration
  fopt_TLSConfig :: "tls_Config option"

text \<open>
  What lies outside the package: loading a key pair from two files, and the driver's
  three constructors, each giving the client that the options reach.
\<close>

record environment =
  LoadX509KeyPair :: "string \<Rightarrow> string \<Rightarrow> error + Certificate"
  NewClient :: "redis_Options \<Rightarrow> redis_Client"
  NewClusterClient :: "redis_ClusterOptions \<Rightarrow> redis_Client"
  NewFailoverClient :: "redis_FailoverOptions \<Rightarrow> redis_Client"

text \<open>
  The calls a construction makes on the backend, in order: the constructor, \<open>Ping\<close>,
  \<open>Close\<close>.
\<close>

datatype event =
    Built_Client redis_Options
  | Built_ClusterClient redis_ClusterOptions
  | Built_FailoverClient redis_FailoverOptions
  | Pinged
  | Closed

record ClusterClient =
  cluster_client :: redis_Client
  cluster_config :: Config

datatype Client =
    Client_Single SingleClient
  | Client_Cluster ClusterClient
  | Client_Sentinel SentinelClient

record Factory =
  factory_config :: Config

definition NewFactory :: "Config option \<Rightarrow> error + Factory" where
  "NewFactory cfg =
     (let config = (case cfg of None \<Rightarrow> DefaultConfig | Some c \<Rightarrow> c)
      in case Validate config of
           Some err \<Rightarrow> Inl (Wrapped ''invalid config'' err)
         | None \<Rightarrow> Inr \<lparr>factory_config = config\<rparr>)"

definition buildTLSConfig :: "environment \<Rightarrow> TLSConfig \<Rightarrow> error + tls_Config" where
  "buildTLSConfig env tlsConfig =
     (let config = \<lparr>tls_InsecureSkipVerify = InsecureSkipVerify tlsConfig,
                    tls_ServerName = ServerName tlsConfig,
                    tls_Certificates = []\<rparr>
      in if CertFile tlsConfig \<noteq> '''' \<and> KeyFile tlsConfig \<noteq> '''' then
           (case LoadX509KeyPair env (CertFile tlsConfig) (KeyFile tlsConfig) of
              Inl err \<Rightarrow> Inl (Wrapped ''failed to load certificate'' err)
            | Inr cert \<Rightarrow> Inr (config\<lparr>tls_Certificates := [cert]\<rparr>))
         else Inr config)"

text \<open>
  The block under \<open>// TLS\<close> that the three constructions share: the TLS configuration
  to put into the options, or the error to return.
\<close>

definition configureTLS :: "environment \<Rightarrow> CommonConfig \<Rightarrow> error + tls_Config option" where
  "configureTLS env common =
     (case TLS common of
        None \<Rightarrow> Inr None
      | Some t \<Rightarrow>
          if Enabled t then
            (case buildTLSConfig env t of
               Inl err \<Rightarrow> Inl (Wrapped ''failed to build TLS config'' err)
             | Inr tlsConfig \<Rightarrow> Inr (Some tlsConfig))
          else Inr None)"

text \<open>
  The block after the constructor that the three constructions share: \<open>Ping\<close>; on an
  error \<open>rdb.Close()\<close> and the wrapped error, otherwise the client.
\<close>

definition testConnection ::
  "string \<Rightarrow> redis_Client \<Rightarrow> Client \<Rightarrow> (error + Client) \<times> event list" where
  "testConnection msg rdb made =
     (case redis_Ping rdb of
        Some err \<Rightarrow> (Inl (Wrapped msg err), [Pinged, Closed])
      | None \<Rightarrow> (Inr made, [Pinged]))"

text \<open>
  A construction returns a panic (\<open>f.config.Single\<close> and its siblings are pointers the
  function dereferences) or the pair Go returns, with the backend calls it made.
\<close>

type_synonym construction = "(panic + (error + Client)) \<times> event list"

definition createSingleClient :: "environment \<Rightarrow> Factory \<Rightarrow> construction" where
  "createSingleClient env f =
     (let cfg = factory_config f; common = Common cfg
      in case Single cfg of
           None \<Rightarrow> (Inl NilDereferencePanic, [])
         | Some single \<Rightarrow>
             (case configureTLS env common of
                Inl err \<Rightarrow> (Inr (Inl err), [])
              | Inr tlsConfig \<Rightarrow>
                  (let opts = \<lparr>opt_Addr = Single_Addr single,
                               opt_DB = Single_DB single,
                               opt_Username = Username common,
                               opt_Password = Password common,
                               opt_PoolSize = PoolSize common,
                               opt_MinIdleConns = MinIdleConns common,
                               opt_MaxIdleConns = MaxIdleConns common,
                               opt_PoolTimeout = PoolTimeout common,
                               opt_DialTimeout = DialTimeout common,
                               opt_ReadTimeout = ReadTimeout common,
                               opt_WriteTimeout = WriteTimeout common,
                               opt_MaxRetries = MaxRetries common,
                               opt_MinRetryBackoff = MinRetryBackoff common,
                               opt_MaxRetryBackoff = MaxRetryBackoff common,
                               opt_TLSConfig = tlsConfig\<rparr>;
                       rdb = NewClient env opts;
                       (r, evs) = testConnection ''failed to connect to redis'' rdb
                                    (Client_Single \<lparr>client = rdb, config = cfg\<rparr>)
                   in (Inr r, Built_Client opts # evs))))"

definition createClusterClient :: "environment \<Rightarrow> Factory \<Rightarrow> construction" where
  "createClusterClient env f =
     (let cfg = factory_config f; common = Common cfg
      in case Cluster cfg of
           None \<Rightarrow> (Inl NilDereferencePanic, [])
         | Some cluster \<Rightarrow>
             (case configureTLS env common of
                Inl err \<Rightarrow> (Inr (Inl err), [])
              | Inr tlsConfig \<Rightarrow>
                  (let opts = \<lparr>copt_Addrs = Cluster_Addrs cluster,
                               copt_Username = Username common,
                               copt_Password = Password common,
                               copt_MaxRedirects =
                                 (if Cluster_MaxRedirects cluster = 0 then 3
                                  else Cluster_MaxRedirects cluster),
                               copt_ReadOnly = Cluster_ReadOnly cluster,
                               copt_RouteByLatency = Cluster_RouteByLatency cluster,
                               copt_RouteRandomly = Cluster_RouteRandomly cluster,
                               copt_PoolSize = PoolSize common,
                               copt_MinIdleConns = MinIdleConns common,
                               copt_MaxIdleConns = MaxIdleConns common,
                               copt_PoolTimeout = PoolTimeout common,
                               copt_DialTimeout = DialTimeout common,
                               copt_ReadTimeout = ReadTimeout common,
                               copt_WriteTimeout = WriteTimeout common,
                               copt_MaxRetries = MaxRetries common,
                               copt_MinRetryBackoff = MinRetryBackoff common,
                               copt_MaxRetryBackoff = MaxRetryBackoff common,
                               copt_TLSConfig = tlsConfig\<rparr>;
                       rdb = NewClusterClient env opts;
                       (r, evs) = testConnection ''failed to connect to redis cluster'' rdb
                                    (Client_Cluster \<lparr>cluster_client = rdb, cluster_config = cfg\<rparr>)
                   in (Inr r, Built_ClusterClient opts # evs))))"

definition createSentinelClient :: "environment \<Rightarrow> Factory \<Rightarrow> construction" where
  "createSentinelClient env f =
     (let cfg = factory_config f; common = Common cfg
      in case Sentinel cfg of
           None \<Rightarrow> (Inl NilDereferencePanic, [])
         | Some sentinel \<Rightarrow>
             (case configureTLS env common of
                Inl err \<Rightarrow> (Inr (Inl err), [])
              | Inr tlsConfig \<Rightarrow>
                  (let opts = \<lparr>fopt_MasterName = Sentinel_MasterName sentinel,
                               fopt_SentinelAddrs = Sentinel_Addrs sentinel,
                               fopt_SentinelPassword = Sentinel_SentinelPassword sentinel,
                               fopt_DB = Sentinel_DB sentinel,
                               fopt_Username = Username common,
                               fopt_Password = Password common,
                               fopt_PoolSize = PoolSize common,
                               fopt_MinIdleConns = MinIdleConns common,
                               fopt_MaxIdleConns = MaxIdleConns common,
                               fopt_PoolTimeout = PoolTimeout common,
                               fopt_DialTimeout = DialTimeout common,
                               fopt_ReadTimeout = ReadTimeout common,
                               fopt_WriteTimeout = WriteTimeout common,
                               fopt_MaxRetries = MaxRetries common,
                               fopt_MinRetryBackoff = MinRetryBackoff common,
                               fopt_MaxRetryBackoff = MaxRetryBackoff common,
                               fopt_TLSConfig = tlsConfig\<rparr>;
                       rdb = NewFailoverClient env opts;
                       (r, evs) = testConnection ''failed to connect to redis sentinel'' rdb
                                    (Client_Sentinel \<lparr>sentinel_client = rdb, sentinel_config = cfg\<rparr>)
                   in (Inr r, Built_FailoverClient opts # evs))))"

definition CreateClient :: "environment \<Rightarrow> Factory \<Rightarrow> construction" where
  "CreateClient env f =
     (if Mode (factory_config f) = ModeSingle then createSingleClient env f
      else if Mode (factory_config f) = ModeCluster then createClusterClient env f
      else if Mode (factory_config f) = ModeSentinel then createSentinelClient env f
      else (Inr (Inl (Errorf (''unsupported mode: '' @ Mode (factory_config f)))), []))"

section \<open>Using a pipeline\<close>

text \<open>
  A caller's use of a pipeline: any sequence of enqueue calls, \<open>Exec\<close>, \<open>Discard\<close>
  and \<open>Close\<close>, each on the pipeline the one before left. \<open>enqueue_all\<close> queues a
  batch and collects the pointers of the handles the methods return.
\<close>

datatype operation = op_Enqueue enqueue_method | op_Exec | op_Discard | op_Close

fun step :: "Config \<Rightarrow> driver \<Rightarrow> operation \<Rightarrow> pipeline \<Rightarrow> pipeline option" where
  "step c drv (op_Enqueue m) p = map_option snd (SinglePipeliner_enqueue c drv m p)"
| "step c drv op_Exec p = Some (snd (SinglePipeliner_Exec drv p))"
| "step c drv op_Discard p = Some (snd (SinglePipeliner_Discard p))"
| "step c drv op_Close p = Some (snd (SinglePipeliner_Close p))"

fun run :: "Config \<Rightarrow> driver \<Rightarrow> operation list \<Rightarrow> pipeline \<Rightarrow> pipeline option" where
  "run c drv [] p = Some p"
| "run c drv (x # xs) p = (case step c drv x p of None \<Rightarrow> None | Some p' \<Rightarrow> run c drv xs p')"

fun enqueue_all ::
  "Config \<Rightarrow> driver \<Rightarrow> enqueue_method list \<Rightarrow> pipeline \<Rightarrow> (nat list \<times> pipeline) option" where
  "enqueue_all c drv [] p = Some ([], p)"
| "enqueue_all c drv (m # ms) p =
     (case SinglePipeliner_enqueue c drv m p of
        None \<Rightarrow> None
      | Some (h, p') \<Rightarrow>
          (case enqueue_all c drv ms p' of
             None \<Rightarrow> None
           | Some (hs, p'') \<Rightarrow> Some (h # hs, p'')))"

text \<open>
  The invariant of a pipeline's heap: nothing is allocated at or above \<open>next_addr\<close>,
  and every pointer the driver has queued holds a command object.
\<close>

definition well_formed :: "pipeline \<Rightarrow> bool" where
  "well_formed p \<longleftrightarrow>
     (\<forall>a. next_addr p \<le> a \<longrightarrow> heap p a = None) \<and>
     (\<forall>a call. (a, call) \<in> set (queued p) \<longrightarrow> (\<exists>cmd. heap p a = Some (Driver_Cmd cmd)))"


section \<open>Statement of the probe\<close>

text \<open>
  The client a constructor call built, the driver client inside a package client, and
  the messages of the three probe failures.
\<close>

fun built_backend :: "environment \<Rightarrow> event \<Rightarrow> redis_Client option" where
  "built_backend env (Built_Client opts) = Some (NewClient env opts)"
| "built_backend env (Built_ClusterClient opts) = Some (NewClusterClient env opts)"
| "built_backend env (Built_FailoverClient opts) = Some (NewFailoverClient env opts)"
| "built_backend env Pinged = None"
| "built_backend env Closed = None"

fun backend_of :: "Client \<Rightarrow> redis_Client" where
  "backend_of (Client_Single c) = client c"
| "backend_of (Client_Cluster c) = cluster_client c"
| "backend_of (Client_Sentinel c) = sentinel_client c"

definition connect_messages :: "string list" where
  "connect_messages =
     [''failed to connect to redis'', ''failed to connect to redis cluster'',
      ''failed to connect to redis sentinel'']"

text \<open>
  A construction has probed its backend when it either built nothing and returns no
  client, or built one backend, pinged it at once and then: on a successful ping stopped
  there and returns a client over that backend; on a failed ping closed the backend and
  returns the ping's error wrapped in a connection-failure message.
\<close>

definition probed :: "environment \<Rightarrow> construction \<Rightarrow> bool" where
  "probed env res =
     (case res of
        (r, []) \<Rightarrow> (\<forall>cl. r \<noteq> Inr (Inr cl))
      | (r, b # rest) \<Rightarrow>
          (case built_backend env b of
             None \<Rightarrow> False
           | Some rdb \<Rightarrow>
               (case redis_Ping rdb of
                  None \<Rightarrow> rest = [Pinged] \<and> (\<exists>cl. r = Inr (Inr cl) \<and> backend_of cl = rdb)
                | Some err \<Rightarrow>
                    rest = [Pinged, Closed] \<and>
                    (\<exists>msg. msg \<in> set connect_messages \<and> r = Inr (Inl (Wrapped msg err))))))"

section \<open>Example inputs\<close>

text \<open>A store with no keys: every \<open>GET\<close> is answered with the driver's nil reply.\<close>

definition empty_store :: redis_Client where
  "empty_store =
     \<lparr>redis_Ping = None,
      redis_Close = None,
      redis_Get = (\<lambda>key. ('''', Some redis_Nil)),
      redis_Set = (\<lambda>key v expiration. None),
      redis_MSet = (\<lambda>pairs. None),
      redis_Keys = (\<lambda>pattern. ([], None)),
      redis_Scan = (\<lambda>cursor match count. (([], 0), None))\<rparr>"

text \<open>
  A client configured with the prefix \<open>app:\<close> and a default expiration of thirty
  minutes.
\<close>

definition app_config :: Config where
  "app_config =
     DefaultConfig\<lparr>Common := (Common DefaultConfig)\<lparr>KeyPrefix := ''app:'', DefaultTTL := 30 * Minute\<rparr>\<rparr>"



text \<open>The options \<open>createSingleClient\<close> fills in from \<open>DefaultConfig\<close>.\<close>

definition default_options :: redis_Options where
  "default_options =
     \<lparr>opt_Addr = ''localhost:6379'',
      opt_DB = 0,
      opt_Username = '''',
      opt_Password = '''',
      opt_PoolSize = 10,
      opt_MinIdleConns = 2,
      opt_MaxIdleConns = 5,
      opt_PoolTimeout = Second * 4,
      opt_DialTimeout = Second * 5,
      opt_ReadTimeout = Second * 3,
      opt_WriteTimeout = Second * 3,
      opt_MaxRetries = 3,
      opt_MinRetryBackoff = Millisecond * 8,
      opt_MaxRetryBackoff = Millisecond * 512,
      opt_TLSConfig = None\<rparr>"

text \<open>
  The driver of the examples. A command object that has been queued and not yet executed
  holds the zero value of its kind and no error, and the round trip resolves the queued
  calls to the replies given, returning the error given.
\<close>

fun unexecuted :: "pipe_call \<Rightarrow> redis_Cmder" where
  "unexecuted (pipe_Get key) = redis_StringCmd '''' None"
| "unexecuted (pipe_Set key v expiration) = redis_StatusCmd '''' None"
| "unexecuted (pipe_SetNX key v expiration) = redis_BoolCmd False None"
| "unexecuted (pipe_Incr key) = redis_IntCmd 0 None"
| "unexecuted (pipe_Decr key) = redis_IntCmd 0 None"
| "unexecuted (pipe_HGet key field) = redis_StringCmd '''' None"
| "unexecuted (pipe_HSet key field v) = redis_IntCmd 0 None"
| "unexecuted (pipe_HDel key flds) = redis_IntCmd 0 None"
| "unexecuted (pipe_LPush key vs) = redis_IntCmd 0 None"
| "unexecuted (pipe_RPush key vs) = redis_IntCmd 0 None"
| "unexecuted (pipe_LPop key) = redis_StringCmd '''' None"
| "unexecuted (pipe_RPop key) = redis_StringCmd '''' None"
| "unexecuted (pipe_SAdd key members) = redis_IntCmd 0 None"
| "unexecuted (pipe_SRem key members) = redis_IntCmd 0 None"
| "unexecuted (pipe_SMembers key) = redis_StringSliceCmd [] None"
| "unexecuted (pipe_ZAdd key members) = redis_IntCmd 0 None"
| "unexecuted (pipe_ZRem key members) = redis_IntCmd 0 None"
| "unexecuted (pipe_ZRange key start stop) = redis_StringSliceCmd [] None"
| "unexecuted (pipe_Del keys) = redis_IntCmd 0 None"
| "unexecuted (pipe_Exists keys) = redis_IntCmd 0 None"
| "unexecuted (pipe_Expire key expiration) = redis_BoolCmd False None"

definition scripted_driver :: "redis_Cmder list \<Rightarrow> error option \<Rightarrow> driver" where
  "scripted_driver replies err = \<lparr>newCmd = unexecuted, roundTrip = (\<lambda>calls. (replies, err))\<rparr>"

definition WRONGTYPE :: error where
  "WRONGTYPE = DriverError ''WRONGTYPE Operation against a key holding the wrong kind of value''"

text \<open>
  A driver whose command objects all hold \<open>queued_as\<close> when queued and are all
  resolved to \<open>resolved_as\<close> by a round trip that succeeds.
\<close>

definition preset_driver :: "redis_Cmder \<Rightarrow> redis_Cmder \<Rightarrow> driver" where
  "preset_driver queued_as resolved_as =
     \<lparr>newCmd = (\<lambda>call. queued_as), roundTrip = (\<lambda>calls. (map (\<lambda>call. resolved_as) calls, None))\<rparr>"

text \<open>
  The batch of the package's pipeline error-handling test with the replies of a store
  that runs it: \<open>SET\<close> succeeds, \<open>LPUSH\<close> on the string key fails, \<open>GET\<close>
  returns the string.
\<close>

definition error_batch :: "enqueue_method list" where
  "error_batch =
     [enq_Set ''pipe:error:key'' (GoString ''string_value'') 0,
      enq_LPush ''pipe:error:key'' [GoString ''item''],
      enq_Get ''pipe:error:key'']"

definition error_batch_replies :: "redis_Cmder list" where
  "error_batch_replies =
     [redis_StatusCmd ''OK'' None,
      redis_IntCmd 0 (Some WRONGTYPE),
      redis_StringCmd ''string_value'' None]"

text \<open>The batch of the package's basic pipeline test, with the store's replies.\<close>

definition basic_batch :: "enqueue_method list" where
  "basic_batch =
     [enq_Set ''pipe:key1'' (GoString ''value1'') 0,
      enq_Set ''pipe:key2'' (GoString ''value2'') 0,
      enq_Get ''pipe:key1'',
      enq_Get ''pipe:key2'']"

definition basic_batch_replies :: "redis_Cmder list" where
  "basic_batch_replies =
     [redis_StatusCmd ''OK'' None,
      redis_StatusCmd ''OK'' None,
      redis_StringCmd ''value1'' None,
      redis_StringCmd ''value2'' None]"

section \<open>Closed forms\<close>

text \<open>
  What \<open>MSet_loop\<close> leaves at index \<open>j\<close> when it starts at the even index \<open>i\<close> on
  the slice \<open>acc\<close> and every key it meets is a string: the slots below \<open>i\<close> and a
  last unpaired slot are untouched, a paired even slot holds the prefixed key, an odd
  slot the value.
\<close>

definition MSet_loop_result :: "Config \<Rightarrow> go_value list \<Rightarrow> go_value list \<Rightarrow> nat \<Rightarrow> nat \<Rightarrow> go_value" where
  "MSet_loop_result c pairs acc i j =
     (if j < i then acc ! j
      else if even j then
        (if j + 1 < length pairs then
           (case pairs ! j of GoString key \<Rightarrow> GoString (GetKeyWithPrefix c key) | _ \<Rightarrow> GoNil)
         else acc ! j)
      else pairs ! j)"

section \<open>Properties of the policy and the configuration\<close>

lemmas Duration_defs =
  Hour_def Minute_def Second_def Millisecond_def Microsecond_def Nanosecond_def

lemmas Mode_defs = ModeSingle_def ModeCluster_def ModeSentinel_def

text \<open>
  Claim C4. \<open>GetTTL\<close> returns the requested duration when it is positive and the
  configured default when it is zero or negative, and \<open>Set\<close> hands the driver the
  duration so resolved (with the prefixed key).
\<close>

theorem GetTTL_resolves:
  "(0 <s d \<longrightarrow> GetTTL c d = d) \<and>
   (d \<le>s 0 \<longrightarrow> GetTTL c d = DefaultTTL (Common c)) \<and>
   SingleClient_Set cl key v d =
     redis_Set (client cl) (GetKeyWithPrefix (config cl) key) v (GetTTL (config cl) d)"
  by (auto simp: GetTTL_def SingleClient_Set_def Let_def word_sle_eq word_sless_alt)

theorem GetTTL_resolves_witness:
  "0 <s 5 * Second \<and> GetTTL app_config (5 * Second) = 5 * Second \<and>
   (0 :: Duration) \<le>s 0 \<and> GetTTL app_config 0 = 30 * Minute \<and>
   (- 7 :: Duration) \<le>s 0 \<and> GetTTL app_config (- 7) = 30 * Minute"
  using GetTTL_resolves [of "5 * Second" app_config]
    GetTTL_resolves [of 0 app_config] GetTTL_resolves [of "- 7" app_config]
  by (simp add: word_sle_eq word_sless_alt app_config_def Duration_defs)

text \<open>
  Claim C6. \<open>Validate\<close> succeeds exactly when the mode is single, cluster or sentinel
  and the sub-configuration of that mode is present and filled in (an address; a
  non-empty address list; a non-empty address list and a master name). Each failure is
  one of the configuration errors, and each of them names what is missing; any other
  mode, the empty one included, gives \<open>ErrInvalidMode\<close>.
\<close>

theorem Validate_iff:
  "(Validate c = None \<longleftrightarrow>
      (Mode c = ModeSingle \<and> (\<exists>s. Single c = Some s \<and> Single_Addr s \<noteq> '''')) \<or>
      (Mode c = ModeCluster \<and> (\<exists>cl. Cluster c = Some cl \<and> Cluster_Addrs cl \<noteq> [])) \<or>
      (Mode c = ModeSentinel \<and>
         (\<exists>s. Sentinel c = Some s \<and> Sentinel_Addrs s \<noteq> [] \<and> Sentinel_MasterName s \<noteq> ''''))) \<and>
   (Validate c = Some ErrInvalidMode \<longleftrightarrow>
      Mode c \<noteq> ModeSingle \<and> Mode c \<noteq> ModeCluster \<and> Mode c \<noteq> ModeSentinel) \<and>
   (Validate c = Some ErrMissingSingleConfig \<longleftrightarrow> Mode c = ModeSingle \<and> Single c = None) \<and>
   (Validate c = Some ErrMissingAddr \<longleftrightarrow>
      Mode c = ModeSingle \<and> (\<exists>s. Single c = Some s \<and> Single_Addr s = '''')) \<and>
   (Validate c = Some ErrMissingClusterConfig \<longleftrightarrow> Mode c = ModeCluster \<and> Cluster c = None) \<and>
   (Validate c = Some ErrMissingSentinelConfig \<longleftrightarrow> Mode c = ModeSentinel \<and> Sentinel c = None) \<and>
   (Validate c = Some ErrMissingAddrs \<longleftrightarrow>
      (Mode c = ModeCluster \<and> (\<exists>cl. Cluster c = Some cl \<and> Cluster_Addrs cl = [])) \<or>
      (Mode c = ModeSentinel \<and> (\<exists>s. Sentinel c = Some s \<and> Sentinel_Addrs s = []))) \<and>
   (Validate c = Some ErrMissingMasterName \<longleftrightarrow>
      Mode c = ModeSentinel \<and>
      (\<exists>s. Sentinel c = Some s \<and> Sentinel_Addrs s \<noteq> [] \<and> Sentinel_MasterName s = '''')) \<and>
   Validate c \<in> set (None # map Some configErrors)"
  unfolding Validate_def Mode_defs configErrors_def
  by (auto split: option.splits)

text \<open>
  Claim C5. When the driver answers the \<open>GET\<close> of the prefixed key with its nil reply
  (the key is not in the store), \<open>Get\<close> of \<open>SingleClient\<close> and of \<open>SentinelClient\<close>
  returns the empty string with \<open>ErrKeyNotFound\<close>, which is neither the driver's nil
  reply, nor \<open>ErrNilResult\<close>, nor any other error of the driver.
\<close>

theorem Get_miss_not_found:
  "(snd (redis_Get (client c) (GetKeyWithPrefix (config c) key)) = Some redis_Nil \<longrightarrow>
      SingleClient_Get c key = ('''', Some ErrKeyNotFound)) \<and>
   (snd (redis_Get (sentinel_client s) (GetKeyWithPrefix (sentinel_config s) key)) = Some redis_Nil \<longrightarrow>
      SentinelClient_Get s key = ('''', Some ErrKeyNotFound)) \<and>
   ErrKeyNotFound \<noteq> redis_Nil \<and> ErrKeyNotFound \<noteq> ErrNilResult \<and>
   ErrKeyNotFound \<noteq> DriverError msg"
  by (simp add: SingleClient_Get_def SentinelClient_Get_def Let_def)

theorem Get_miss_not_found_witness:
  "snd (redis_Get empty_store (GetKeyWithPrefix DefaultConfig ''k1'')) = Some redis_Nil \<and>
   SingleClient_Get \<lparr>client = empty_store, config = DefaultConfig\<rparr> ''k1'' = ('''', Some ErrKeyNotFound) \<and>
   SentinelClient_Get \<lparr>sentinel_client = empty_store, sentinel_config = DefaultConfig\<rparr> ''k1'' =
     ('''', Some ErrKeyNotFound)"
  using Get_miss_not_found [of "\<lparr>client = empty_store, config = DefaultConfig\<rparr>" "''k1''"
      "\<lparr>sentinel_client = empty_store, sentinel_config = DefaultConfig\<rparr>"]
  by (simp add: empty_store_def)

lemma app_prefix: "KeyPrefix (Common app_config) = ''app:''"
  by (simp add: app_config_def)









section \<open>Properties of the factory\<close>

text \<open>
  Claim C10. \<open>NewFactory(nil)\<close> does not fail: it returns a factory over
  \<open>DefaultConfig\<close> (single mode, \<open>localhost:6379\<close>, database 0, a default
  expiration of 24 hours, no key prefix), and \<open>CreateClient\<close> of that factory is
  \<open>createSingleClient\<close>: a \<open>SingleClient\<close> over the driver client for those options
  when the probe succeeds.
\<close>

theorem NewFactory_nil_default:
  "NewFactory None = Inr \<lparr>factory_config = DefaultConfig\<rparr> \<and>
   Mode DefaultConfig = ModeSingle \<and>
   Single DefaultConfig = Some \<lparr>Single_Addr = ''localhost:6379'', Single_DB = 0\<rparr> \<and>
   DefaultTTL (Common DefaultConfig) = 24 * Hour \<and>
   24 * Hour = (86400000000000 :: Duration) \<and>
   KeyPrefix (Common DefaultConfig) = '''' \<and>
   opt_Addr default_options = ''localhost:6379'' \<and> opt_DB default_options = 0 \<and>
   CreateClient env \<lparr>factory_config = DefaultConfig\<rparr> =
     createSingleClient env \<lparr>factory_config = DefaultConfig\<rparr> \<and>
   CreateClient env \<lparr>factory_config = DefaultConfig\<rparr> =
     (case redis_Ping (NewClient env default_options) of
        None \<Rightarrow>
          (Inr (Inr (Client_Single \<lparr>client = NewClient env default_options, config = DefaultConfig\<rparr>)),
           [Built_Client default_options, Pinged])
      | Some err \<Rightarrow>
          (Inr (Inl (Wrapped ''failed to connect to redis'' err)),
           [Built_Client default_options, Pinged, Closed]))"
proof -
  have v: "Validate DefaultConfig = None"
    by (simp add: Validate_def DefaultConfig_def ModeSingle_def)
  have n: "NewFactory None = Inr \<lparr>factory_config = DefaultConfig\<rparr>"
    by (simp add: NewFactory_def v)
  have m: "Mode DefaultConfig = ModeSingle"
    by (simp add: DefaultConfig_def)
  have h: "24 * Hour = (86400000000000 :: Duration)"
    by (simp add: Hour_def Minute_def Second_def Millisecond_def Microsecond_def Nanosecond_def)
  have c: "CreateClient env \<lparr>factory_config = DefaultConfig\<rparr> =
     createSingleClient env \<lparr>factory_config = DefaultConfig\<rparr>"
    by (simp add: CreateClient_def m)
  have s: "createSingleClient env \<lparr>factory_config = DefaultConfig\<rparr> =
     (case redis_Ping (NewClient env default_options) of
        None \<Rightarrow>
          (Inr (Inr (Client_Single \<lparr>client = NewClient env default_options, config = DefaultConfig\<rparr>)),
           [Built_Client default_options, Pinged])
      | Some err \<Rightarrow>
          (Inr (Inl (Wrapped ''failed to connect to redis'' err)),
           [Built_Client default_options, Pinged, Closed]))"
    by (simp add: createSingleClient_def Let_def configureTLS_def DefaultConfig_def
        default_options_def testConnection_def split: option.splits)
  have sg: "Single DefaultConfig = Some \<lparr>Single_Addr = ''localhost:6379'', Single_DB = 0\<rparr>"
    by (simp add: DefaultConfig_def)
  have d: "DefaultTTL (Common DefaultConfig) = 24 * Hour"
    by (simp add: DefaultConfig_def)
  have k: "KeyPrefix (Common DefaultConfig) = ''''"
    by (simp add: DefaultConfig_def)
  have oa: "opt_Addr default_options = ''localhost:6379''"
    by (simp add: default_options_def)
  have od: "opt_DB default_options = 0"
    by (simp add: default_options_def)
  note s' = s [folded c]
  from n m sg d h k oa od c s' show ?thesis
    by blast
qed

section \<open>Properties of MSet\<close>

lemma MSet_loop_panics:
  "even i \<Longrightarrow>
   \<exists>j. i \<le> j \<and> even j \<and> j + 1 < length pairs \<and> (\<forall>key. pairs ! j \<noteq> GoString key) \<Longrightarrow>
   MSet_loop c pairs i acc = Inl TypeAssertionPanic"
proof (induction c pairs i acc rule: MSet_loop.induct)
  case (1 c pairs i acc)
  from "1.prems" obtain j where j: "i \<le> j" "even j" "j + 1 < length pairs"
    "\<forall>key. pairs ! j \<noteq> GoString key" by blast
  then have lt: "i < length pairs" "i + 1 < length pairs" by auto
  show ?case
  proof (cases "pairs ! i")
    case (GoString key)
    with j have "j \<noteq> i" by auto
    with j(1,2) "1.prems"(1) have "i + 2 \<le> j"
      by (metis Suc_leI add_2_eq_Suc' even_Suc le_neq_implies_less)
    with j have ex: "\<exists>j. i + 2 \<le> j \<and> even j \<and> j + 1 < length pairs \<and>
        (\<forall>key. pairs ! j \<noteq> GoString key)" by blast
    from "1.prems"(1) have ev: "even (i + 2)" by simp
    have "MSet_loop c pairs (i + 2)
        (acc[i := GoString (GetKeyWithPrefix c key), i + 1 := pairs ! (i + 1)]) =
        Inl TypeAssertionPanic"
      using "1.IH"(1) [OF lt GoString ev ex] .
    with lt GoString show ?thesis
      by (subst MSet_loop.simps) simp
  qed (use lt in \<open>subst MSet_loop.simps, simp\<close>)+
qed

lemma MSet_loop_returns:
  "even i \<Longrightarrow> length acc = length pairs \<Longrightarrow>
   \<forall>j. i \<le> j \<and> even j \<and> j + 1 < length pairs \<longrightarrow> (\<exists>key. pairs ! j = GoString key) \<Longrightarrow>
   MSet_loop c pairs i acc = Inr (map (MSet_loop_result c pairs acc i) [0..<length pairs])"
proof (induction c pairs i acc rule: MSet_loop.induct)
  case (1 c pairs i acc)
  show ?case
  proof (cases "i < length pairs")
    case False
    then have "map (MSet_loop_result c pairs acc i) [0..<length pairs] = acc"
      using "1.prems"(2) by (intro nth_equalityI) (auto simp: MSet_loop_result_def)
    with False show ?thesis by (subst MSet_loop.simps) simp
  next
    case lt: True
    show ?thesis
    proof (cases "i + 1 < length pairs")
      case False
      have ev: "even (i + 2)" using "1.prems"(1) by simp
      have all: "\<forall>j. i + 2 \<le> j \<and> even j \<and> j + 1 < length pairs \<longrightarrow>
          (\<exists>key. pairs ! j = GoString key)" using "1.prems"(3) by auto
      have "MSet_loop c pairs (i + 2) acc =
          Inr (map (MSet_loop_result c pairs acc (i + 2)) [0..<length pairs])"
        using "1.IH"(2) [OF lt False ev "1.prems"(2) all] .
      moreover have "map (MSet_loop_result c pairs acc (i + 2)) [0..<length pairs] =
          map (MSet_loop_result c pairs acc i) [0..<length pairs]"
      proof (rule map_cong [OF refl])
        fix j assume "j \<in> set [0..<length pairs]"
        then have "j < i \<or> j = i" using False by auto
        then show "MSet_loop_result c pairs acc (i + 2) j = MSet_loop_result c pairs acc i j"
          using False "1.prems"(1) by (auto simp: MSet_loop_result_def)
      qed
      ultimately show ?thesis using lt False by (subst MSet_loop.simps) simp
    next
      case lt1: True
      with "1.prems"(1,3) obtain key where key: "pairs ! i = GoString key" by blast
      let ?acc = "acc[i := GoString (GetKeyWithPrefix c key), i + 1 := pairs ! (i + 1)]"
      have ev: "even (i + 2)" using "1.prems"(1) by simp
      have len: "length ?acc = length pairs" using "1.prems"(2) by simp
      have all: "\<forall>j. i + 2 \<le> j \<and> even j \<and> j + 1 < length pairs \<longrightarrow>
          (\<exists>key. pairs ! j = GoString key)" using "1.prems"(3) by auto
      have "MSet_loop c pairs (i + 2) ?acc =
          Inr (map (MSet_loop_result c pairs ?acc (i + 2)) [0..<length pairs])"
        using "1.IH"(1) [OF lt lt1 key ev len all] .
      moreover have "map (MSet_loop_result c pairs ?acc (i + 2)) [0..<length pairs] =
          map (MSet_loop_result c pairs acc i) [0..<length pairs]"
      proof (rule map_cong [OF refl])
        fix j assume "j \<in> set [0..<length pairs]"
        then have j: "j < length pairs" by simp
        consider "j < i" | "j = i" | "j = i + 1" | "i + 2 \<le> j" by linarith
        then show "MSet_loop_result c pairs ?acc (i + 2) j = MSet_loop_result c pairs acc i j"
        proof cases
          case 1 then show ?thesis by (simp add: MSet_loop_result_def)
        next
          case 2 then show ?thesis
            using lt lt1 key "1.prems"(1,2) by (simp add: MSet_loop_result_def)
        next
          case 3 then show ?thesis
            using lt lt1 key "1.prems"(1,2) by (simp add: MSet_loop_result_def)
        next
          case 4 then show ?thesis
            using "1.prems"(2) by (simp add: MSet_loop_result_def)
        qed
      qed
      ultimately show ?thesis using lt lt1 key by (subst MSet_loop.simps) simp
    qed
  qed
qed


lemma MSet_loop_result_start:
  "j < length pairs \<Longrightarrow>
   MSet_loop_result c pairs (replicate (length pairs) GoNil) 0 j =
     (if even j then
        (if j + 1 < length pairs then
           (case pairs ! j of GoString key \<Rightarrow> GoString (GetKeyWithPrefix c key) | _ \<Rightarrow> GoNil)
         else GoNil)
      else pairs ! j)"
  by (simp add: MSet_loop_result_def)

lemma MSet_loop_start:
  assumes "\<forall>i. even i \<and> i + 1 < length pairs \<longrightarrow> (\<exists>key. pairs ! i = GoString key)"
  shows "MSet_loop c pairs 0 (replicate (length pairs) GoNil) =
     Inr (map (\<lambda>j. if even j then
                      (if j + 1 < length pairs then
                         (case pairs ! j of GoString key \<Rightarrow> GoString (GetKeyWithPrefix c key)
                          | _ \<Rightarrow> GoNil)
                       else GoNil)
                    else pairs ! j) [0..<length pairs])"
proof -
  have "MSet_loop c pairs 0 (replicate (length pairs) GoNil) =
      Inr (map (MSet_loop_result c pairs (replicate (length pairs) GoNil) 0) [0..<length pairs])"
    using assms by (intro MSet_loop_returns) auto
  also have "map (MSet_loop_result c pairs (replicate (length pairs) GoNil) 0) [0..<length pairs] =
      map (\<lambda>j. if even j then
                      (if j + 1 < length pairs then
                         (case pairs ! j of GoString key \<Rightarrow> GoString (GetKeyWithPrefix c key)
                          | _ \<Rightarrow> GoNil)
                       else GoNil)
                    else pairs ! j) [0..<length pairs]"
    by (rule map_cong [OF refl]) (simp add: MSet_loop_result_start)
  finally show ?thesis .
qed

lemma MSet_loop_odd_last:
  assumes "odd (length pairs)"
    and "MSet_loop c pairs 0 (replicate (length pairs) GoNil) = Inr out"
  shows "length out = length pairs \<and> last out = GoNil"
proof -
  have good: "\<forall>i. even i \<and> i + 1 < length pairs \<longrightarrow> (\<exists>key. pairs ! i = GoString key)"
  proof (rule ccontr)
    assume "\<not> ?thesis"
    then have "\<exists>j. 0 \<le> j \<and> even j \<and> j + 1 < length pairs \<and> (\<forall>key. pairs ! j \<noteq> GoString key)"
      by auto
    then have "MSet_loop c pairs 0 (replicate (length pairs) GoNil) = Inl TypeAssertionPanic"
      by (intro MSet_loop_panics) auto
    with assms(2) show False by simp
  qed
  from assms(1) have pos: "0 < length pairs" by (cases pairs) auto
  from MSet_loop_start [OF good, of c] assms(2)
  have out: "out = map (\<lambda>j. if even j then
                      (if j + 1 < length pairs then
                         (case pairs ! j of GoString key \<Rightarrow> GoString (GetKeyWithPrefix c key)
                          | _ \<Rightarrow> GoNil)
                       else GoNil)
                    else pairs ! j) [0..<length pairs]" by simp
  then have len: "length out = length pairs" by simp
  from pos len have "last out = out ! (length pairs - 1)"
    by (metis last_conv_nth length_0_conv less_numeral_extra(3))
  also have "\<dots> = GoNil"
    using pos assms(1) by (simp add: out)
  finally show ?thesis using len by simp
qed

text \<open>
  Claim C9, as the code has it. \<open>MSet\<close> type-asserts to a string each argument at an
  even index that is followed by a value: if one of them is not a string the call panics
  and nothing is sent. Otherwise the driver receives the prefixed keys at those indices
  and the values unchanged at the odd ones; an argument at a last even index with no
  value after it is not inspected, and its slot in the forwarded slice stays \<open>nil\<close>.
\<close>

theorem MSet_asserts_paired_keys:
  "((\<exists>i. even i \<and> i + 1 < length pairs \<and> (\<forall>key. pairs ! i \<noteq> GoString key)) \<longrightarrow>
      SingleClient_MSet c pairs = Inl TypeAssertionPanic \<and>
      SentinelClient_MSet s pairs = Inl TypeAssertionPanic) \<and>
   ((\<forall>i. even i \<and> i + 1 < length pairs \<longrightarrow> (\<exists>key. pairs ! i = GoString key)) \<longrightarrow>
      SingleClient_MSet c pairs =
        Inr (redis_MSet (client c)
          (map (\<lambda>j. if even j then
                       (if j + 1 < length pairs then
                          (case pairs ! j of
                             GoString key \<Rightarrow> GoString (GetKeyWithPrefix (config c) key)
                           | _ \<Rightarrow> GoNil)
                        else GoNil)
                     else pairs ! j) [0..<length pairs])) \<and>
      SentinelClient_MSet s pairs =
        Inr (redis_MSet (sentinel_client s)
          (map (\<lambda>j. if even j then
                       (if j + 1 < length pairs then
                          (case pairs ! j of
                             GoString key \<Rightarrow> GoString (GetKeyWithPrefix (sentinel_config s) key)
                           | _ \<Rightarrow> GoNil)
                        else GoNil)
                     else pairs ! j) [0..<length pairs]))) \<and>
   (odd (length pairs) \<and> MSet_loop cfg pairs 0 (replicate (length pairs) GoNil) = Inr out \<longrightarrow>
      length out = length pairs \<and> last out = GoNil)"
proof (intro conjI impI)
  assume "\<exists>i. even i \<and> i + 1 < length pairs \<and> (\<forall>key. pairs ! i \<noteq> GoString key)"
  then have bad: "\<exists>j. 0 \<le> j \<and> even j \<and> j + 1 < length pairs \<and> (\<forall>key. pairs ! j \<noteq> GoString key)"
    by auto
  have p: "MSet_loop cf pairs 0 (replicate (length pairs) GoNil) = Inl TypeAssertionPanic" for cf
    using bad by (intro MSet_loop_panics) auto
  show "SingleClient_MSet c pairs = Inl TypeAssertionPanic"
    by (simp add: SingleClient_MSet_def p)
  show "SentinelClient_MSet s pairs = Inl TypeAssertionPanic"
    by (simp add: SentinelClient_MSet_def p)
next
  assume good: "\<forall>i. even i \<and> i + 1 < length pairs \<longrightarrow> (\<exists>key. pairs ! i = GoString key)"
  show "SingleClient_MSet c pairs =
        Inr (redis_MSet (client c)
          (map (\<lambda>j. if even j then
                       (if j + 1 < length pairs then
                          (case pairs ! j of
                             GoString key \<Rightarrow> GoString (GetKeyWithPrefix (config c) key)
                           | _ \<Rightarrow> GoNil)
                        else GoNil)
                     else pairs ! j) [0..<length pairs]))"
    by (simp add: SingleClient_MSet_def MSet_loop_start [OF good])
  show "SentinelClient_MSet s pairs =
        Inr (redis_MSet (sentinel_client s)
          (map (\<lambda>j. if even j then
                       (if j + 1 < length pairs then
                          (case pairs ! j of
                             GoString key \<Rightarrow> GoString (GetKeyWithPrefix (sentinel_config s) key)
                           | _ \<Rightarrow> GoNil)
                        else GoNil)
                     else pairs ! j) [0..<length pairs]))"
    by (simp add: SentinelClient_MSet_def MSet_loop_start [OF good])
next
  assume a: "odd (length pairs) \<and> MSet_loop cfg pairs 0 (replicate (length pairs) GoNil) = Inr out"
  then show "length out = length pairs" using MSet_loop_odd_last by blast
  from a show "last out = GoNil" using MSet_loop_odd_last by blast
qed

text \<open>
  The claim as stated fails on a single argument that is not a string: index 0 is even,
  the argument is never asserted, and the call returns what the driver answers to
  \<open>[nil]\<close>.
\<close>

theorem MSet_asserts_paired_keys_counterexample:
  "even (0 :: nat) \<and> [GoInt 42] ! 0 = GoInt 42 \<and>
   MSet_loop app_config [GoInt 42] 0 (replicate (length [GoInt 42]) GoNil) = Inr [GoNil] \<and>
   SingleClient_MSet \<lparr>client = empty_store, config = app_config\<rparr> [GoInt 42] = Inr None \<and>
   SingleClient_MSet \<lparr>client = empty_store, config = app_config\<rparr> [GoInt 42] \<noteq> Inl TypeAssertionPanic"
  by (simp add: SingleClient_MSet_def MSet_loop.simps empty_store_def)


theorem MSet_asserts_paired_keys_witness:
  "SingleClient_MSet \<lparr>client = empty_store, config = app_config\<rparr> [GoInt 1, GoString ''x''] =
     Inl TypeAssertionPanic \<and>
   SingleClient_MSet \<lparr>client = empty_store, config = app_config\<rparr>
       [GoString ''a'', GoString ''1'', GoString ''b''] =
     Inr (redis_MSet empty_store [GoString ''app:a'', GoString ''1'', GoNil]) \<and>
   odd (length [GoString ''a'', GoString ''1'', GoString ''b'']) \<and>
   MSet_loop app_config [GoString ''a'', GoString ''1'', GoString ''b''] 0
       (replicate (length [GoString ''a'', GoString ''1'', GoString ''b'']) GoNil) =
     Inr [GoString ''app:a'', GoString ''1'', GoNil] \<and>
   last [GoString ''app:a'', GoString ''1'', GoNil] = GoNil"
proof -
  let ?bad = "[GoInt 1, GoString ''x'']"
  let ?ok = "[GoString ''a'', GoString ''1'', GoString ''b'']"
  let ?c = "\<lparr>client = empty_store, config = app_config\<rparr>"
  have bad: "\<exists>i. even i \<and> i + 1 < length ?bad \<and> (\<forall>key. ?bad ! i \<noteq> GoString key)"
    by (rule exI [of _ 0]) simp
  have good: "\<forall>i. even i \<and> i + 1 < length ?ok \<longrightarrow> (\<exists>key. ?ok ! i = GoString key)"
  proof (intro allI impI)
    fix i :: nat
    assume a: "even i \<and> i + 1 < length ?ok"
    then have "i = 0 \<or> i = 1" by auto
    with a have "i = 0" by auto
    then show "\<exists>key. ?ok ! i = GoString key" by simp
  qed
  have loop: "MSet_loop app_config ?ok 0 (replicate (length ?ok) GoNil) =
      Inr [GoString ''app:a'', GoString ''1'', GoNil]"
    by (simp add: MSet_loop.simps GetKeyWithPrefix_def app_prefix)
  have odd3: "odd (length ?ok)" by simp
  from MSet_asserts_paired_keys [of ?bad ?c _ app_config] bad
  have r1: "SingleClient_MSet ?c ?bad = Inl TypeAssertionPanic" by blast
  from MSet_asserts_paired_keys [of ?ok ?c _ app_config "[GoString ''app:a'', GoString ''1'', GoNil]"]
    good loop odd3
  have r2: "SingleClient_MSet ?c ?ok =
        Inr (redis_MSet (client ?c)
          (map (\<lambda>j. if even j then
                       (if j + 1 < length ?ok then
                          (case ?ok ! j of
                             GoString key \<Rightarrow> GoString (GetKeyWithPrefix (config ?c) key)
                           | _ \<Rightarrow> GoNil)
                        else GoNil)
                     else ?ok ! j) [0..<length ?ok]))"
    and r3: "last [GoString ''app:a'', GoString ''1'', GoNil] = GoNil"
    by blast+
  have m: "[0..<length ?ok] = [0, 1, 2]" by (simp add: upt_rec)
  from r2 have r2': "SingleClient_MSet ?c ?ok =
      Inr (redis_MSet empty_store [GoString ''app:a'', GoString ''1'', GoNil])"
    unfolding m by (simp add: GetKeyWithPrefix_def app_prefix)
  from r1 r2' odd3 loop r3 show ?thesis by blast
qed

section \<open>Properties of the pipeline\<close>

lemma enqueue_eq:
  "enqueue drv call p =
     Some (next_addr p + 1,
       p\<lparr>heap := (heap p)(next_addr p \<mapsto> Driver_Cmd (newCmd drv call),
                           next_addr p + 1 \<mapsto> Handle (wrapCmd (newCmd drv call))),
         next_addr := next_addr p + 2,
         queued := queued p @ [(next_addr p, call)]\<rparr>)"
  by (simp add: enqueue_def pipe_enqueue_def alloc_def)

lemma wf_Pipeline: "well_formed Pipeline"
  by (simp add: well_formed_def Pipeline_def)

lemma resolve_other: "a \<notin> fst ` set xs \<Longrightarrow> resolve h xs a = h a"
  by (induction h xs rule: resolve.induct) auto

lemma zip_fst_subset: "fst ` set (zip xs ys) \<subseteq> set xs"
  by (auto dest: set_zip_leftD)

lemma Exec_heap:
  "heap (snd (SinglePipeliner_Exec drv p)) =
     resolve (heap p) (zip (map fst (queued p)) (fst (roundTrip drv (map snd (queued p)))))"
  by (auto simp: SinglePipeliner_Exec_def pipe_Exec_def Let_def split: prod.splits option.splits)

lemma Exec_rest:
  "next_addr (snd (SinglePipeliner_Exec drv p)) = next_addr p"
  "queued (snd (SinglePipeliner_Exec drv p)) = []"
  by (auto simp: SinglePipeliner_Exec_def pipe_Exec_def Let_def split: prod.splits option.splits)

lemma step_total: "\<exists>p'. step c drv x p = Some p'"
  by (cases x) (simp_all add: SinglePipeliner_enqueue_def enqueue_eq)

lemma wf_queued:
  assumes "well_formed p" and "(a, call) \<in> set (queued p)"
  shows "a < next_addr p \<and> (\<exists>cmd. heap p a = Some (Driver_Cmd cmd))"
proof -
  from assms obtain cmd where c: "heap p a = Some (Driver_Cmd cmd)"
    unfolding well_formed_def by blast
  with assms(1) have "\<not> next_addr p \<le> a" unfolding well_formed_def by auto
  with c show ?thesis by auto
qed

lemma step_wf:
  assumes "well_formed p" and "step c drv x p = Some p'"
  shows "well_formed p'"
proof (cases x)
  case (op_Enqueue m)
  let ?call = "driver_call c m"
  from op_Enqueue assms(2)
  have p': "p' = p\<lparr>heap := (heap p)(next_addr p \<mapsto> Driver_Cmd (newCmd drv ?call),
                                    next_addr p + 1 \<mapsto> Handle (wrapCmd (newCmd drv ?call))),
                    next_addr := next_addr p + 2,
                    queued := queued p @ [(next_addr p, ?call)]\<rparr>"
    by (auto simp: SinglePipeliner_enqueue_def enqueue_eq)
  have free: "heap p' a = None" if "next_addr p' \<le> a" for a
    using that assms(1) by (simp add: p' well_formed_def)
  have cmds: "\<exists>cmd. heap p' a = Some (Driver_Cmd cmd)" if "(a, call) \<in> set (queued p')" for a call
  proof (cases "(a, call) \<in> set (queued p)")
    case True
    from wf_queued [OF assms(1) True] show ?thesis by (auto simp: p')
  next
    case False
    with that have "a = next_addr p" by (simp add: p')
    then show ?thesis by (simp add: p')
  qed
  from free cmds show ?thesis unfolding well_formed_def by blast
next
  case op_Exec
  let ?xs = "zip (map fst (queued p)) (fst (roundTrip drv (map snd (queued p))))"
  from op_Exec assms(2) have p': "p' = snd (SinglePipeliner_Exec drv p)" by simp
  have "heap p' a = None" if "next_addr p \<le> a" for a
  proof -
    from that assms(1) have n: "heap p a = None" by (simp add: well_formed_def)
    have "a \<notin> fst ` set ?xs"
    proof
      assume "a \<in> fst ` set ?xs"
      then have "a \<in> fst ` set (queued p)" using zip_fst_subset [of "map fst (queued p)"] by auto
      with assms(1) n show False by (auto simp: well_formed_def)
    qed
    then show ?thesis by (simp add: p' Exec_heap resolve_other n)
  qed
  then show ?thesis by (simp add: well_formed_def p' Exec_rest)
next
  case op_Discard
  with assms show ?thesis
    by (auto simp: well_formed_def SinglePipeliner_Discard_def pipe_Discard_def)
next
  case op_Close
  with assms show ?thesis by (auto simp: SinglePipeliner_Close_def)
qed

lemma step_keeps_handle:
  assumes "well_formed p" and "heap p h = Some (Handle x)" and "step c drv y p = Some p'"
  shows "heap p' h = Some (Handle x)"
proof (cases y)
  case (op_Enqueue m)
  from assms(1,2) have "h < next_addr p"
    by (metis well_formed_def not_le option.distinct(1))
  with op_Enqueue assms show ?thesis
    by (auto simp: SinglePipeliner_enqueue_def enqueue_eq)
next
  case op_Exec
  let ?xs = "zip (map fst (queued p)) (fst (roundTrip drv (map snd (queued p))))"
  have "h \<notin> fst ` set ?xs"
  proof
    assume "h \<in> fst ` set ?xs"
    then have "h \<in> fst ` set (queued p)" using zip_fst_subset [of "map fst (queued p)"] by auto
    with assms(1,2) show False by (auto simp: well_formed_def)
  qed
  with op_Exec assms show ?thesis by (auto simp: Exec_heap resolve_other)
next
  case op_Discard
  with assms show ?thesis by (auto simp: SinglePipeliner_Discard_def pipe_Discard_def)
next
  case op_Close
  with assms show ?thesis by (auto simp: SinglePipeliner_Close_def)
qed

lemma run_wf: "well_formed p \<Longrightarrow> \<exists>p'. run c drv xs p = Some p' \<and> well_formed p'"
proof (induction xs arbitrary: p)
  case Nil
  then show ?case by simp
next
  case (Cons x xs)
  from step_total obtain p1 where s: "step c drv x p = Some p1" by blast
  with Cons.prems have "well_formed p1" by (rule step_wf)
  from Cons.IH [OF this] s show ?case by simp
qed

lemma run_keeps_handle:
  "well_formed p \<Longrightarrow> heap p h = Some (Handle x) \<Longrightarrow>
   \<exists>p'. run c drv xs p = Some p' \<and> heap p' h = Some (Handle x)"
proof (induction xs arbitrary: p)
  case Nil
  then show ?case by simp
next
  case (Cons y ys)
  from step_total obtain p1 where s: "step c drv y p = Some p1" by blast
  from Cons.prems s have "well_formed p1" "heap p1 h = Some (Handle x)"
    by (auto intro: step_wf step_keeps_handle)
  from Cons.IH [OF this] s show ?case by simp
qed

text \<open>
  Claim C8. In every pipeline reached from a fresh one, an enqueue method returns a
  new handle of the wrapper kind that matches the driver's command object, holding the
  value and the error that command object holds at that moment, and no later sequence
  of enqueue calls, \<open>Exec\<close>, \<open>Discard\<close> and \<open>Close\<close> changes the handle.
\<close>

theorem handle_fixed_at_enqueue:
  "\<exists>p a h p' cmd.
     run c drv before Pipeline = Some p \<and>
     SinglePipeliner_enqueue c drv m p = Some (h, p') \<and>
     queued p' = queued p @ [(a, driver_call c m)] \<and>
     cmd = newCmd drv (driver_call c m) \<and>
     heap p' a = Some (Driver_Cmd cmd) \<and>
     heap p' h = Some (Handle (wrapCmd cmd)) \<and>
     heap p' h =
       Some (Handle
         (case cmd of
            redis_StringCmd v e \<Rightarrow> StringCmd v e
          | redis_StatusCmd v e \<Rightarrow> StatusCmd v e
          | redis_IntCmd v e \<Rightarrow> IntCmd v e
          | redis_BoolCmd v e \<Rightarrow> BoolCmd v e
          | redis_StringSliceCmd v e \<Rightarrow> StringSliceCmd v e)) \<and>
     (\<forall>later. \<exists>p''. run c drv later p' = Some p'' \<and> heap p'' h = heap p' h)"
proof -
  from run_wf [OF wf_Pipeline] obtain p where p: "run c drv before Pipeline = Some p" "well_formed p"
    by blast
  let ?call = "driver_call c m"
  let ?cmd = "newCmd drv ?call"
  let ?a = "next_addr p"
  let ?h = "next_addr p + 1"
  let ?p' = "p\<lparr>heap := (heap p)(?a \<mapsto> Driver_Cmd ?cmd, ?h \<mapsto> Handle (wrapCmd ?cmd)),
               next_addr := next_addr p + 2,
               queued := queued p @ [(?a, ?call)]\<rparr>"
  have e: "SinglePipeliner_enqueue c drv m p = Some (?h, ?p')"
    by (simp add: SinglePipeliner_enqueue_def enqueue_eq)
  have s: "step c drv (op_Enqueue m) p = Some ?p'" by (simp add: e)
  have w: "well_formed ?p'" using step_wf [OF p(2) s] .
  have hh: "heap ?p' ?h = Some (Handle (wrapCmd ?cmd))" by simp
  have copy: "wrapCmd ?cmd =
      (case ?cmd of
         redis_StringCmd v e \<Rightarrow> StringCmd v e
       | redis_StatusCmd v e \<Rightarrow> StatusCmd v e
       | redis_IntCmd v e \<Rightarrow> IntCmd v e
       | redis_BoolCmd v e \<Rightarrow> BoolCmd v e
       | redis_StringSliceCmd v e \<Rightarrow> StringSliceCmd v e)"
    by (cases ?cmd) simp_all
  have hc: "heap ?p' ?h =
      Some (Handle
        (case ?cmd of
           redis_StringCmd v e \<Rightarrow> StringCmd v e
         | redis_StatusCmd v e \<Rightarrow> StatusCmd v e
         | redis_IntCmd v e \<Rightarrow> IntCmd v e
         | redis_BoolCmd v e \<Rightarrow> BoolCmd v e
         | redis_StringSliceCmd v e \<Rightarrow> StringSliceCmd v e))"
    using hh copy by simp
  have ha: "heap ?p' ?a = Some (Driver_Cmd ?cmd)" by simp
  have q: "queued ?p' = queued p @ [(?a, ?call)]" by simp
  have l: "\<forall>later. \<exists>p''. run c drv later ?p' = Some p'' \<and> heap p'' ?h = heap ?p' ?h"
    using run_keeps_handle [OF w hh] hh by metis
  from p(1) e q ha hh hc l show ?thesis by blast
qed

theorem handle_fixed_at_enqueue_witness:
  "(case SinglePipeliner_enqueue DefaultConfig
           (preset_driver (redis_IntCmd 7 (Some ErrInvalidType)) (redis_IntCmd 1 None))
           (enq_Incr ''n'') Pipeline of
      None \<Rightarrow> False
    | Some (h, p) \<Rightarrow>
        h = 1 \<and>
        heap p 0 = Some (Driver_Cmd (redis_IntCmd 7 (Some ErrInvalidType))) \<and>
        heap p h = Some (Handle (IntCmd 7 (Some ErrInvalidType))) \<and>
        (case run DefaultConfig
                (preset_driver (redis_IntCmd 7 (Some ErrInvalidType)) (redis_IntCmd 1 None))
                [op_Exec, op_Enqueue (enq_Get ''k''), op_Discard, op_Close] p of
           None \<Rightarrow> False
         | Some p' \<Rightarrow>
             heap p' 0 = Some (Driver_Cmd (redis_IntCmd 1 None)) \<and>
             heap p' h = Some (Handle (IntCmd 7 (Some ErrInvalidType)))))"
  using handle_fixed_at_enqueue [of DefaultConfig
      "preset_driver (redis_IntCmd 7 (Some ErrInvalidType)) (redis_IntCmd 1 None)" "[]"
      "enq_Incr ''n''"]
  by (simp add: preset_driver_def SinglePipeliner_enqueue_def enqueue_eq SinglePipeliner_Exec_def
      pipe_Exec_def SinglePipeliner_Discard_def pipe_Discard_def SinglePipeliner_Close_def
      Pipeline_def)

text \<open>
  Claim C1, at the batch of the error-handling test. The round trip succeeds and
  resolves the driver's command objects: the second one carries the wrong-type error,
  the third the string. The handles the caller holds still have the values copied when
  the commands were queued: the handle of the failing command carries no error, and the
  handle of the \<open>Get\<close> carries the empty string, not \<open>string_value\<close>. When the
  driver's \<open>Exec\<close> reports the failed command's error as its own, the wrapper returns
  that error and no results.
\<close>

theorem error_batch_handles_unresolved:
  "(case enqueue_all DefaultConfig (scripted_driver error_batch_replies None) error_batch Pipeline of
      None \<Rightarrow> False
    | Some (handles, p) \<Rightarrow>
        (case SinglePipeliner_Exec (scripted_driver error_batch_replies None) p of
           ((results, err), p') \<Rightarrow>
             err = None \<and>
             map (heap p') results =
               [Some (Driver_Cmd (redis_StatusCmd ''OK'' None)),
                Some (Driver_Cmd (redis_IntCmd 0 (Some WRONGTYPE))),
                Some (Driver_Cmd (redis_StringCmd ''string_value'' None))] \<and>
             map (heap p') handles =
               [Some (Handle (StatusCmd '''' None)),
                Some (Handle (IntCmd 0 None)),
                Some (Handle (StringCmd '''' None))])) \<and>
   (case enqueue_all DefaultConfig (scripted_driver error_batch_replies (Some WRONGTYPE))
           error_batch Pipeline of
      None \<Rightarrow> False
    | Some (handles, p) \<Rightarrow>
        fst (SinglePipeliner_Exec (scripted_driver error_batch_replies (Some WRONGTYPE)) p) =
          ([], Some WRONGTYPE))"
  by (simp add: error_batch_def error_batch_replies_def scripted_driver_def
      SinglePipeliner_enqueue_def enqueue_eq SinglePipeliner_Exec_def pipe_Exec_def Pipeline_def)

text \<open>
  Claim C2, at the batch of the basic pipeline test. \<open>Exec\<close> returns the four command
  objects in enqueue order, resolved to \<open>OK\<close>, \<open>OK\<close>, \<open>value1\<close>, \<open>value2\<close>; the
  four handles hold the empty values they were built with, so the handle of each
  \<open>Get\<close> does not match the result at its position.
\<close>

theorem basic_batch_handles_unresolved:
  "(case enqueue_all DefaultConfig (scripted_driver basic_batch_replies None) basic_batch Pipeline of
      None \<Rightarrow> False
    | Some (handles, p) \<Rightarrow>
        (case SinglePipeliner_Exec (scripted_driver basic_batch_replies None) p of
           ((results, err), p') \<Rightarrow>
             err = None \<and> length results = 4 \<and>
             map (heap p') results =
               [Some (Driver_Cmd (redis_StatusCmd ''OK'' None)),
                Some (Driver_Cmd (redis_StatusCmd ''OK'' None)),
                Some (Driver_Cmd (redis_StringCmd ''value1'' None)),
                Some (Driver_Cmd (redis_StringCmd ''value2'' None))] \<and>
             map (heap p') handles =
               [Some (Handle (StatusCmd '''' None)),
                Some (Handle (StatusCmd '''' None)),
                Some (Handle (StringCmd '''' None)),
                Some (Handle (StringCmd '''' None))]))"
  by (simp add: basic_batch_def basic_batch_replies_def scripted_driver_def
      SinglePipeliner_enqueue_def enqueue_eq SinglePipeliner_Exec_def pipe_Exec_def Pipeline_def)

section \<open>Properties of client construction\<close>

lemma createSingleClient_probed: "probed env (createSingleClient env f)"
  by (auto simp: probed_def createSingleClient_def testConnection_def Let_def connect_messages_def
      split: option.splits sum.splits)

lemma createClusterClient_probed: "probed env (createClusterClient env f)"
  by (auto simp: probed_def createClusterClient_def testConnection_def Let_def connect_messages_def
      split: option.splits sum.splits)

lemma createSentinelClient_probed: "probed env (createSentinelClient env f)"
  by (auto simp: probed_def createSentinelClient_def testConnection_def Let_def connect_messages_def
      split: option.splits sum.splits)

text \<open>
  Claim C7. Every construction (\<open>CreateClient\<close> and each of the three functions it
  dispatches to) pings the backend right after building it. When the ping fails the
  backend is closed and the construction returns the ping's error wrapped as a
  connection failure, with no client; a client is returned only over a backend whose
  ping succeeded.
\<close>

theorem CreateClient_probed:
  "probed env (CreateClient env f) \<and>
   probed env (createSingleClient env f) \<and>
   probed env (createClusterClient env f) \<and>
   probed env (createSentinelClient env f)"
proof -
  have "probed env (CreateClient env f)"
    using createSingleClient_probed createClusterClient_probed createSentinelClient_probed
    by (simp add: CreateClient_def probed_def)
  then show ?thesis
    using createSingleClient_probed createClusterClient_probed createSentinelClient_probed
    by blast
qed

end
